theory Spec2Isabelle
  imports Main
begin

section \<open>JavaScript values\<close>

text \<open>
  The values that flow through \<^verbatim>\<open>App.js\<close> are JSON values (the result of
  \<^verbatim>\<open>res.json()\<close>) and strings (the result of \<^verbatim>\<open>res.text()\<close>, stored tokens).
  A JavaScript string is the same value whichever of the two produced it, so text is
  \<open>JStr\<close>; a string is a sequence of code units below 256. A number is represented by
  the string that JavaScript's conversion of numbers to strings gives it
  (\<open>JNum ''0.5''\<close>, and \<open>JNum ''18446744073709552000''\<close> for the number that
  \<^verbatim>\<open>18446744073709551616\<close> parses to): that string identifies the number up to the
  sign of zero, which nothing here tells apart. The properties of a parsed object are an
  association list with distinct keys. \<open>undefined\<close> is \<open>None\<close> of \<open>json option\<close>.
\<close>

datatype json =
    JNull
  | JBool bool
  | JNum string
  | JStr string
  | JArr "json list"
  | JObj "(string \<times> json) list"

text \<open>Truthiness, as tested by \<^verbatim>\<open>if (x)\<close>, \<^verbatim>\<open>!x\<close>, \<^verbatim>\<open>x && y\<close> and \<^verbatim>\<open>x || y\<close>.\<close>

fun truthy :: "json \<Rightarrow> bool" where
  "truthy JNull = False"
| "truthy (JBool b) = b"
| "truthy (JNum r) = (r \<noteq> ''0'' \<and> r \<noteq> ''NaN'')"
| "truthy (JStr s) = (s \<noteq> [])"
| "truthy (JArr xs) = True"
| "truthy (JObj kvs) = True"

text \<open>
  Property access \<^verbatim>\<open>v.name\<close> on a value that is not \<^verbatim>\<open>null\<close>, for the names the
  program reads (\<^verbatim>\<open>message\<close>, \<^verbatim>\<open>token\<close>), none of which is inherited from a
  built-in prototype: an object yields its own property, every other value \<open>undefined\<close>.
\<close>

fun js_get :: "json \<Rightarrow> string \<Rightarrow> json option" where
  "js_get (JObj kvs) name = map_of kvs name"
| "js_get v name = None"

text \<open>
  Decimal rendering of a response status (an unsigned 16-bit integer), as in the template
  \<^verbatim>\<open>`Request failed ${res.status}`\<close>.
\<close>

fun show_nat :: "nat \<Rightarrow> string" where
  "show_nat n =
     (if n < 10 then [''0123456789'' ! n]
      else show_nat (n div 10) @ [''0123456789'' ! (n mod 10)])"

declare show_nat.simps [simp del]

fun join_comma :: "string list \<Rightarrow> string" where
  "join_comma [] = []"
| "join_comma [s] = s"
| "join_comma (s # t # ss) = s @ '','' @ join_comma (t # ss)"

section \<open>Errors\<close>

text \<open>
  Every exception the modelled code can raise is a value. \<open>RequestFailed\<close> is the
  \<^verbatim>\<open>Error\<close> that \<^verbatim>\<open>apiRequest\<close> throws on a response that is not ok, with its
  \<^verbatim>\<open>message\<close>, \<^verbatim>\<open>status\<close> and \<^verbatim>\<open>data\<close>: the spec's Failure outcome. The others
  are raised by the platform: reading the global \<^verbatim>\<open>localStorage\<close> where there is none,
  a rejected \<^verbatim>\<open>fetch\<close>, a body that \<^verbatim>\<open>res.json()\<close> cannot parse, and the
  \<^verbatim>\<open>TypeError\<close> of a value that has no string form or of a header that is not
  well-formed.
\<close>

datatype js_error =
    StorageUnavailable
  | FetchRejected
  | JsonSyntaxError
  | TypeError
  | RequestFailed (message: string) (status_code: nat) (data: json)

type_synonym 'a js_result = "js_error + 'a"

text \<open>The results of a list of steps, up to the first that raises.\<close>

fun collect :: "'a js_result list \<Rightarrow> 'a list js_result" where
  "collect [] = Inr []"
| "collect (Inl err # rs) = Inl err"
| "collect (Inr x # rs) = (case collect rs of Inl err \<Rightarrow> Inl err | Inr xs \<Rightarrow> Inr (x # xs))"

text \<open>
  String conversion, as performed by \<^verbatim>\<open>localStorage.setItem\<close> on the stored value and by
  \<^verbatim>\<open>new Error(m)\<close> on the message. An array joins the string forms of its elements
  with commas, a \<^verbatim>\<open>null\<close> element giving the empty string. An object is converted by
  its \<^verbatim>\<open>toString\<close>: the inherited one gives \<^verbatim>\<open>[object Object]\<close>; an own property
  of that name, which in a parsed value is never a function, hides it, and the conversion
  throws a \<^verbatim>\<open>TypeError\<close>.
\<close>

fun js_to_string :: "json \<Rightarrow> string js_result" where
  "js_to_string JNull = Inr ''null''"
| "js_to_string (JBool b) = Inr (if b then ''true'' else ''false'')"
| "js_to_string (JNum r) = Inr r"
| "js_to_string (JStr s) = Inr s"
| "js_to_string (JArr xs) =
     (case collect (map (\<lambda>x. if x = JNull then Inr [] else js_to_string x) xs) of
        Inl err \<Rightarrow> Inl err
      | Inr strs \<Rightarrow> Inr (join_comma strs))"
| "js_to_string (JObj kvs) =
     (if map_of kvs ''toString'' \<noteq> None then Inl TypeError else Inr ''[object Object]'')"

section \<open>Strings\<close>

text \<open>\<^verbatim>\<open>String.prototype.includes\<close>: the second string occurs somewhere in the first.\<close>

fun str_includes :: "string \<Rightarrow> string \<Rightarrow> bool" where
  "str_includes [] sub = (sub = [])"
| "str_includes (c # cs) sub = (take (length sub) (c # cs) = sub \<or> str_includes cs sub)"

section \<open>Token store\<close>

text \<open>
  \<^verbatim>\<open>localStorage\<close> is a map from keys to strings. \<open>Available\<close> is a storage that
  the platform provides and that has room for the token, so that it accepts the write;
  \<open>Unavailable\<close> is the platform without one. A function that touches the storage returns
  its result together with the storage it leaves. \<^verbatim>\<open>setItem\<close> converts the value to a
  string before it writes, and writes nothing when the conversion throws.
\<close>

type_synonym storage = "string \<rightharpoonup> string"

datatype local_storage = Unavailable | Available storage

definition TOKEN_KEY :: string where
  "TOKEN_KEY = ''auth_token''"

fun getToken :: "local_storage \<Rightarrow> string option js_result" where
  "getToken Unavailable = Inl StorageUnavailable"
| "getToken (Available s) = Inr (s TOKEN_KEY)"

fun setToken :: "local_storage \<Rightarrow> json \<Rightarrow> unit js_result \<times> local_storage" where
  "setToken Unavailable token = (Inl StorageUnavailable, Unavailable)"
| "setToken (Available s) token =
     (case js_to_string token of
        Inl err \<Rightarrow> (Inl err, Available s)
      | Inr v \<Rightarrow> (Inr (), Available (s(TOKEN_KEY \<mapsto> v))))"

fun clearToken :: "local_storage \<Rightarrow> unit js_result \<times> local_storage" where
  "clearToken Unavailable = (Inl StorageUnavailable, Unavailable)"
| "clearToken (Available s) = (Inr (), Available (s(TOKEN_KEY := None)))"

section \<open>Requests and responses\<close>

text \<open>
  A \<^verbatim>\<open>Headers\<close> object: header names compare without regard to case, so they are kept
  in lower case, one entry per name, whose value is what \<^verbatim>\<open>get\<close> returns.
  \<^verbatim>\<open>append\<close> and \<^verbatim>\<open>set\<close> first strip the value of leading and trailing tabs,
  line feeds, carriage returns and spaces, and throw a \<^verbatim>\<open>TypeError\<close> unless the name is
  a token (letters, digits and the characters \<^verbatim>\<open>!#$%&'*+-.^_`|~\<close>) and the stripped
  value has no NUL, line feed or carriage return. \<^verbatim>\<open>append\<close> joins a second value for
  a name to the first with a comma and a space, \<^verbatim>\<open>set\<close> replaces it.
\<close>

type_synonym headers = "(string \<times> string) list"

definition lower_char :: "char \<Rightarrow> char" where
  "lower_char c =
     (let n = (of_char c :: nat) in if 65 \<le> n \<and> n \<le> 90 then char_of (n + 32) else c)"

definition lower :: "string \<Rightarrow> string" where
  "lower s = map lower_char s"

definition is_http_whitespace :: "char \<Rightarrow> bool" where
  "is_http_whitespace c = (c \<in> set [CHR 0x09, CHR 0x0A, CHR 0x0D, CHR '' ''])"

definition normalize_value :: "string \<Rightarrow> string" where
  "normalize_value v =
     rev (dropWhile is_http_whitespace (rev (dropWhile is_http_whitespace v)))"

definition is_header_value :: "string \<Rightarrow> bool" where
  "is_header_value v = list_all (\<lambda>c. c \<notin> set [CHR 0x00, CHR 0x0A, CHR 0x0D]) v"

definition is_token_char :: "char \<Rightarrow> bool" where
  "is_token_char c =
     (c \<in> set (''!#$%&*+-.^_|~'' @ [CHR 0x27, CHR 0x60]
                @ ''0123456789''
                @ ''abcdefghijklmnopqrstuvwxyz''
                @ ''ABCDEFGHIJKLMNOPQRSTUVWXYZ''))"

definition is_header_name :: "string \<Rightarrow> bool" where
  "is_header_name name = (name \<noteq> [] \<and> list_all is_token_char name)"

fun headers_put :: "bool \<Rightarrow> string \<Rightarrow> string \<Rightarrow> headers \<Rightarrow> headers" where
  "headers_put combine name v [] = [(name, v)]"
| "headers_put combine name v ((k, w) # hs) =
     (if k = name then (k, if combine then w @ '', '' @ v else v) # hs
      else (k, w) # headers_put combine name v hs)"

definition headers_write :: "bool \<Rightarrow> string \<Rightarrow> string \<Rightarrow> headers \<Rightarrow> headers js_result" where
  "headers_write combine name v hs =
     (let v = normalize_value v
      in if is_header_name name \<and> is_header_value v
         then Inr (headers_put combine (lower name) v hs)
         else Inl TypeError)"

definition headers_append :: "string \<Rightarrow> string \<Rightarrow> headers \<Rightarrow> headers js_result" where
  "headers_append name v hs = headers_write True name v hs"

definition headers_set :: "string \<Rightarrow> string \<Rightarrow> headers \<Rightarrow> headers js_result" where
  "headers_set name v hs = headers_write False name v hs"

definition headers_get :: "string \<Rightarrow> headers \<Rightarrow> string option" where
  "headers_get name hs = map_of hs (lower name)"

text \<open>
  \<^verbatim>\<open>new Headers(init)\<close>: the entries of \<open>init\<close> are appended in order, up to the first
  that throws.
\<close>

fun headers_fill :: "(string \<times> string) list \<Rightarrow> headers \<Rightarrow> headers js_result" where
  "headers_fill [] hs = Inr hs"
| "headers_fill ((name, v) # init) hs =
     (case headers_append name v hs of
        Inl err \<Rightarrow> Inl err
      | Inr hs' \<Rightarrow> headers_fill init hs')"

definition new_Headers :: "(string \<times> string) list \<Rightarrow> headers js_result" where
  "new_Headers init = headers_fill init []"

text \<open>
  The \<^verbatim>\<open>options\<close> argument of \<^verbatim>\<open>apiRequest\<close> (\<open>http_method\<close> is its
  \<^verbatim>\<open>method\<close>); a field that is \<open>None\<close> is not set. The arguments of
  \<^verbatim>\<open>fetch\<close> are the address and \<^verbatim>\<open>{...options, headers}\<close>.
\<close>

record options =
  http_method :: "string option"
  body :: "string option"
  headers :: "(string \<times> string) list option"

record request =
  req_url :: string
  req_method :: "string option"
  req_body :: "string option"
  req_headers :: headers

text \<open>
  A response: \<^verbatim>\<open>res.status\<close>, \<^verbatim>\<open>res.headers.get('content-type')\<close> and the body
  as received. \<^verbatim>\<open>res.ok\<close> holds for the statuses 200 to 299.
\<close>

record response =
  status :: nat
  content_type :: "string option"
  res_body :: string

definition ok :: "response \<Rightarrow> bool" where
  "ok res = (200 \<le> status res \<and> status res \<le> 299)"

text \<open>
  What the program takes from its platform: the setting
  \<^verbatim>\<open>process.env.REACT_APP_API_BASE_URL\<close>, the network (\<^verbatim>\<open>fetch\<close> answers a request
  with a response, or rejects: \<open>None\<close>), \<^verbatim>\<open>JSON.parse\<close> (\<open>None\<close> where it throws)
  and \<^verbatim>\<open>JSON.stringify\<close>.
\<close>

record env =
  REACT_APP_API_BASE_URL :: "string option"
  fetch :: "request \<Rightarrow> response option"
  json_parse :: "string \<Rightarrow> json option"
  json_stringify :: "json \<Rightarrow> string"

section \<open>API client\<close>

text \<open>
  \<^verbatim>\<open>apiRequest\<close>, lines 37 to 47: the request handed to \<^verbatim>\<open>fetch\<close>, given the token
  that \<^verbatim>\<open>getToken()\<close> returned, or the \<^verbatim>\<open>TypeError\<close> of a header that is not
  well-formed.
\<close>

definition apiRequest_headers :: "string option \<Rightarrow> options \<Rightarrow> headers js_result" where
  "apiRequest_headers token options =
     (case new_Headers (case headers options of None \<Rightarrow> [] | Some init \<Rightarrow> init) of
        Inl err \<Rightarrow> Inl err
      | Inr hs0 \<Rightarrow>
          (case headers_set ''Content-Type'' ''application/json'' hs0 of
             Inl err \<Rightarrow> Inl err
           | Inr hs \<Rightarrow>
               (case token of
                  None \<Rightarrow> Inr hs
                | Some t \<Rightarrow>
                    if t \<noteq> [] then headers_set ''Authorization'' (''Bearer '' @ t) hs
                    else Inr hs)))"

definition apiRequest_fetch_args :: "env \<Rightarrow> string option \<Rightarrow> string \<Rightarrow> options \<Rightarrow> request js_result" where
  "apiRequest_fetch_args e token path options =
     (let base = (case REACT_APP_API_BASE_URL e of None \<Rightarrow> [] | Some b \<Rightarrow> b)
      in case apiRequest_headers token options of
           Inl err \<Rightarrow> Inl err
         | Inr hs \<Rightarrow>
             Inr \<lparr> req_url = base @ path,
                   req_method = http_method options,
                   req_body = body options,
                   req_headers = hs \<rparr>)"

text \<open>Lines 48 to 54: the body is parsed as JSON or taken as text, by the content type.\<close>

definition apiRequest_data :: "env \<Rightarrow> response \<Rightarrow> json js_result" where
  "apiRequest_data e res =
     (let contentType = (case content_type res of None \<Rightarrow> [] | Some c \<Rightarrow> c)
      in if str_includes contentType ''application/json''
         then (case json_parse e (res_body res) of
                 None \<Rightarrow> Inl JsonSyntaxError
               | Some d \<Rightarrow> Inr d)
         else Inr (JStr (res_body res)))"

text \<open>
  Line 56: \<^verbatim>\<open>new Error((data && data.message) || `Request failed ${res.status}`)\<close>
  converts its argument to a string, the error's message.
\<close>

definition error_message :: "json \<Rightarrow> nat \<Rightarrow> string js_result" where
  "error_message d st =
     (case (if truthy d then js_get d ''message'' else Some d) of
        Some m \<Rightarrow> if truthy m then js_to_string m else Inr (''Request failed '' @ show_nat st)
      | None \<Rightarrow> Inr (''Request failed '' @ show_nat st))"

definition apiRequest :: "env \<Rightarrow> local_storage \<Rightarrow> string \<Rightarrow> options \<Rightarrow> json js_result \<times> local_storage" where
  "apiRequest e ls path options =
     (case getToken ls of
        Inl err \<Rightarrow> (Inl err, ls)
      | Inr token \<Rightarrow>
          (case apiRequest_fetch_args e token path options of
             Inl err \<Rightarrow> (Inl err, ls)
           | Inr req \<Rightarrow>
               (case fetch e req of
                  None \<Rightarrow> (Inl FetchRejected, ls)
                | Some res \<Rightarrow>
                    (case apiRequest_data e res of
                       Inl err \<Rightarrow> (Inl err, ls)
                     | Inr d \<Rightarrow>
                         if \<not> ok res
                         then (case error_message d (status res) of
                                 Inl err \<Rightarrow> (Inl err, ls)
                               | Inr msg \<Rightarrow> (Inl (RequestFailed msg (status res) d), ls))
                         else (Inr d, ls)))))"

section \<open>Authentication and the guarded route\<close>

text \<open>
  \<^verbatim>\<open>useAuth().login\<close>. An exception of \<^verbatim>\<open>apiRequest\<close> is not caught, so it is the
  result. The hook also keeps the token in a React state (\<^verbatim>\<open>setTok\<close>), which nothing
  modelled here reads: the guard and the client read the store.
\<close>

definition login_options :: "env \<Rightarrow> string \<Rightarrow> string \<Rightarrow> options" where
  \<comment> \<open>\<^verbatim>\<open>{ method: 'POST', body: JSON.stringify({ email, password }) }\<close>\<close>
  "login_options e email password =
     \<lparr> http_method = Some ''POST'',
       body = Some (json_stringify e
                (JObj [(''email'', JStr email), (''password'', JStr password)])),
       headers = None \<rparr>"

definition login :: "env \<Rightarrow> local_storage \<Rightarrow> string \<Rightarrow> string \<Rightarrow> bool js_result \<times> local_storage" where
  "login e ls email password =
     (case apiRequest e ls ''/auth/login'' (login_options e email password) of
        (Inl err, ls1) \<Rightarrow> (Inl err, ls1)
      | (Inr d, ls1) \<Rightarrow>
          (case (if truthy d then js_get d ''token'' else Some d) of
             None \<Rightarrow> (Inr False, ls1)
           | Some t \<Rightarrow>
               if truthy t
               then (case setToken ls1 t of
                       (Inl err, ls2) \<Rightarrow> (Inl err, ls2)
                     | (Inr u, ls2) \<Rightarrow> (Inr True, ls2))
               else (Inr False, ls1)))"

definition logout :: "local_storage \<Rightarrow> unit js_result \<times> local_storage" where
  \<comment> \<open>\<^verbatim>\<open>clearToken(); setTok(null)\<close>, the second on the hook's React state\<close>
  "logout ls = clearToken ls"

text \<open>
  The router's location. \<open>nav_from\<close> is \<^verbatim>\<open>location.state?.from\<close>: the location that
  \<^verbatim>\<open>RequireAuth\<close> recorded, \<open>None\<close> where the state or its \<^verbatim>\<open>from\<close> is missing.
\<close>

datatype location =
  Location (pathname: string) (search: string) (hash: string) (nav_from: "location option")

text \<open>
  What \<^verbatim>\<open>RequireAuth\<close> renders: its children, or
  \<^verbatim>\<open><Navigate to=... replace state={{ from: location }} />\<close>.
\<close>

datatype 'a element =
    Children 'a
  | Navigate (nav_to: string) (nav_replace: bool) (nav_state_from: location)

definition RequireAuth :: "local_storage \<Rightarrow> location \<Rightarrow> 'a \<Rightarrow> 'a element js_result" where
  "RequireAuth ls loc children =
     (case getToken ls of
        Inl err \<Rightarrow> Inl err
      | Inr token \<Rightarrow>
          (case token of
             None \<Rightarrow> Inr (Navigate ''/login'' True loc)
           | Some t \<Rightarrow>
               if t = [] then Inr (Navigate ''/login'' True loc) else Inr (Children children)))"

text \<open>The location the router is at after rendering a \<^verbatim>\<open>Navigate\<close> element.\<close>

fun navigated :: "'a element \<Rightarrow> location option" where
  "navigated (Children c) = None"
| "navigated (Navigate target r origin) = Some (Location target [] [] (Some origin))"

text \<open>
  \<^verbatim>\<open>LoginPage\<close>, line 286: \<^verbatim>\<open>location.state?.from?.pathname || '/admin'\<close>.
\<close>

definition login_from :: "location \<Rightarrow> string" where
  "login_from loc =
     (case nav_from loc of
        None \<Rightarrow> ''/admin''
      | Some origin \<Rightarrow> if pathname origin \<noteq> [] then pathname origin else ''/admin'')"

text \<open>
  \<^verbatim>\<open>onSubmit\<close> of the login form: what the page does once \<^verbatim>\<open>auth.login\<close> has
  settled, \<^verbatim>\<open>window.location.replace(from)\<close> or \<^verbatim>\<open>setError(...)\<close>.
\<close>

datatype page_effect = LocationReplace string | SetError string

definition onSubmit :: "env \<Rightarrow> local_storage \<Rightarrow> location \<Rightarrow> string \<Rightarrow> string \<Rightarrow> page_effect \<times> local_storage" where
  "onSubmit e ls loc email password =
     (case login e ls email password of
        (Inr success, ls1) \<Rightarrow>
          if success then (LocationReplace (login_from loc), ls1)
          else (SetError ''Invalid credentials'', ls1)
      | (Inl err, ls1) \<Rightarrow> (SetError ''Login failed'', ls1))"

section \<open>A sample platform\<close>

text \<open>
  A concrete platform on which the definitions are evaluated: a server that answers every
  request with one given response, a parser that knows five bodies, and a serialiser for
  flat objects of strings.
\<close>

definition quoted :: "string \<Rightarrow> string" where
  "quoted s = [CHR 0x22] @ s @ [CHR 0x22]"

definition sample_body_token :: string where
  \<comment> \<open>\<^verbatim>\<open>{"token":"abc"}\<close>\<close>
  "sample_body_token = ''{'' @ quoted ''token'' @ '':'' @ quoted ''abc'' @ ''}''"

definition sample_body_message :: string where
  \<comment> \<open>\<^verbatim>\<open>{"message":"Unauthorized"}\<close>\<close>
  "sample_body_message = ''{'' @ quoted ''message'' @ '':'' @ quoted ''Unauthorized'' @ ''}''"

definition sample_body_empty_message :: string where
  \<comment> \<open>\<^verbatim>\<open>{"message":""}\<close>\<close>
  "sample_body_empty_message = ''{'' @ quoted ''message'' @ '':'' @ quoted [] @ ''}''"

definition sample_body_object_message :: string where
  \<comment> \<open>\<^verbatim>\<open>{"message":{"toString":1}}\<close>\<close>
  "sample_body_object_message =
     ''{'' @ quoted ''message'' @ '':{'' @ quoted ''toString'' @ '':1}}''"

definition sample_parse :: "string \<Rightarrow> json option" where
  "sample_parse s =
     map_of [(sample_body_token, JObj [(''token'', JStr ''abc'')]),
             (sample_body_message, JObj [(''message'', JStr ''Unauthorized'')]),
             (sample_body_empty_message, JObj [(''message'', JStr [])]),
             (sample_body_object_message,
                JObj [(''message'', JObj [(''toString'', JNum ''1'')])]),
             (''{}'', JObj [])] s"

fun sample_stringify :: "json \<Rightarrow> string" where
  "sample_stringify (JObj [(k1, JStr v1), (k2, JStr v2)]) =
     ''{'' @ quoted k1 @ '':'' @ quoted v1 @ '','' @ quoted k2 @ '':'' @ quoted v2 @ ''}''"
| "sample_stringify v = ''null''"

definition sample_env :: "response \<Rightarrow> env" where
  "sample_env res =
     \<lparr> REACT_APP_API_BASE_URL = None,
       fetch = (\<lambda>req. Some res),
       json_parse = sample_parse,
       json_stringify = sample_stringify \<rparr>"

definition json_response :: "nat \<Rightarrow> string \<Rightarrow> response" where
  "json_response st b =
     \<lparr> status = st, content_type = Some ''application/json'', res_body = b \<rparr>"



definition no_options :: options where
  "no_options = \<lparr> http_method = None, body = None, headers = None \<rparr>"

lemmas sample_defs =
  sample_env_def json_response_def no_options_def sample_parse_def sample_body_token_def
  sample_body_message_def sample_body_empty_message_def sample_body_object_message_def
  quoted_def

section \<open>Auxiliary facts\<close>


lemma lower_Content_Type: "lower ''Content-Type'' = ''content-type''"
  by code_simp



lemma is_header_name_Content_Type: "is_header_name ''Content-Type''"
  by (simp add: is_header_name_def is_token_char_def)

lemma normalize_value_json: "normalize_value ''application/json'' = ''application/json''"
  by (simp add: normalize_value_def is_http_whitespace_def)

lemma is_header_value_json: "is_header_value ''application/json''"
  by (simp add: is_header_value_def)

lemma headers_set_Content_Type:
  "headers_set ''Content-Type'' ''application/json'' hs =
     Inr (headers_put False ''content-type'' ''application/json'' hs)"
  by (simp add: headers_set_def headers_write_def is_header_name_Content_Type
      normalize_value_json is_header_value_json lower_Content_Type)






lemma new_Headers_Nil: "new_Headers [] = Inr []"
  by (simp add: new_Headers_def)

lemma headers_get_Nil: "headers_get name [] = None"
  by (simp add: headers_get_def)



lemma str_includes_iff: "str_includes s sub = (\<exists>pre post. s = pre @ sub @ post)"
proof (induction s)
  case Nil
  then show ?case by auto
next
  case (Cons c cs)
  have here: "(take (length sub) (c # cs) = sub) = (\<exists>post. c # cs = sub @ post)"
    by (metis append_eq_conv_conj append_take_drop_id)
  have "(\<exists>pre post. c # cs = pre @ sub @ post)
      = ((\<exists>post. c # cs = sub @ post) \<or> (\<exists>pre post. cs = pre @ sub @ post))"
  proof
    assume "\<exists>pre post. c # cs = pre @ sub @ post"
    then obtain pre post where eq: "c # cs = pre @ sub @ post"
      by blast
    show "(\<exists>post. c # cs = sub @ post) \<or> (\<exists>pre post. cs = pre @ sub @ post)"
    proof (cases pre)
      case Nil
      with eq show ?thesis by auto
    next
      case (Cons p ps)
      with eq have "cs = ps @ sub @ post" by simp
      then show ?thesis by blast
    qed
  next
    assume "(\<exists>post. c # cs = sub @ post) \<or> (\<exists>pre post. cs = pre @ sub @ post)"
    then show "\<exists>pre post. c # cs = pre @ sub @ post"
    proof
      assume "\<exists>post. c # cs = sub @ post"
      then show ?thesis by (metis append_Nil)
    next
      assume "\<exists>pre post. cs = pre @ sub @ post"
      then obtain pre post where "cs = pre @ sub @ post" by blast
      then have "c # cs = (c # pre) @ sub @ post" by simp
      then show ?thesis by blast
    qed
  qed
  with Cons here show ?case
    by simp
qed

lemma js_get_Some_truthy: "js_get d name = Some x \<Longrightarrow> truthy d"
  by (cases d) auto

lemma js_get_falsy: "\<not> truthy d \<Longrightarrow> js_get d name = None"
  by (cases d) auto

lemma error_message_cases:
  "error_message d st =
     (case js_get d ''message'' of
        None \<Rightarrow> Inr (''Request failed '' @ show_nat st)
      | Some m \<Rightarrow> if truthy m then js_to_string m else Inr (''Request failed '' @ show_nat st))"
  by (cases d) (auto simp: error_message_def split: option.splits)

lemma apiRequest_store: "snd (apiRequest e ls path options) = ls"
  by (simp add: apiRequest_def split: sum.splits option.splits)

lemma apiRequest_Inr_available:
  "apiRequest e ls path options = (Inr d, ls1) \<Longrightarrow> \<exists>s. ls = Available s"
  by (cases ls) (auto simp: apiRequest_def)

lemma apiRequest_headers_no_caller:
  "headers options = None \<Longrightarrow>
     apiRequest_headers None options = Inr [(''content-type'', ''application/json'')]"
  by (simp add: apiRequest_headers_def new_Headers_Nil headers_set_Content_Type)

lemma sample_fetch_args:
  "apiRequest_fetch_args (sample_env r) None path no_options =
     Inr \<lparr> req_url = path, req_method = None, req_body = None,
           req_headers = [(''content-type'', ''application/json'')] \<rparr>"
  by (simp add: apiRequest_fetch_args_def apiRequest_headers_no_caller no_options_def
      sample_env_def)

lemma sample_login_fetch_args:
  "apiRequest_fetch_args (sample_env r) None path (login_options (sample_env r) email password) =
     Inr \<lparr> req_url = path, req_method = Some ''POST'',
           req_body = Some (sample_stringify
                       (JObj [(''email'', JStr email), (''password'', JStr password)])),
           req_headers = [(''content-type'', ''application/json'')] \<rparr>"
  by (simp add: apiRequest_fetch_args_def apiRequest_headers_no_caller login_options_def
      sample_env_def)

lemma sample_apiRequest:
  assumes "headers options = None" and "s TOKEN_KEY = None"
  shows "apiRequest (sample_env r) (Available s) path options =
     (case apiRequest_data (sample_env r) r of
        Inl err \<Rightarrow> (Inl err, Available s)
      | Inr d \<Rightarrow>
          if \<not> ok r
          then (case error_message d (status r) of
                  Inl err \<Rightarrow> (Inl err, Available s)
                | Inr msg \<Rightarrow> (Inl (RequestFailed msg (status r) d), Available s))
          else (Inr d, Available s))"
proof -
  have "\<exists>req. apiRequest_fetch_args (sample_env r) None path options = Inr req"
    using assms(1) by (simp add: apiRequest_fetch_args_def apiRequest_headers_no_caller)
  then obtain req where "apiRequest_fetch_args (sample_env r) None path options = Inr req"
    by blast
  moreover have "fetch (sample_env r) req = Some r"
    by (simp add: sample_env_def)
  ultimately show ?thesis
    using assms(2) by (simp add: apiRequest_def)
qed

section \<open>Token store: round trip, clearing, failure modes\<close>

text \<open>
  Claim C7. For every credential string \<open>c\<close> and every content \<open>s\<close> of the storage,
  \<^verbatim>\<open>setToken(c)\<close> followed by \<^verbatim>\<open>getToken()\<close> returns \<open>c\<close>. The write succeeds, it
  replaces whatever was stored under the key (the storage afterwards is \<open>s\<close> with the key
  bound to \<open>c\<close>), and a value \<open>c0\<close> written before it leaves no trace.
\<close>

theorem setToken_getToken_roundtrip:
  "fst (setToken (Available s) (JStr c)) = Inr ()
   \<and> getToken (snd (setToken (Available s) (JStr c))) = Inr (Some c)
   \<and> snd (setToken (Available s) (JStr c)) = Available (s(TOKEN_KEY \<mapsto> c))
   \<and> setToken (snd (setToken (Available s) (JStr c0))) (JStr c) = setToken (Available s) (JStr c)"
  by simp

text \<open>
  Claim C8. Whatever the storage held, after \<^verbatim>\<open>clearToken()\<close> a \<^verbatim>\<open>getToken()\<close>
  returns absent; and in any state where the token is absent \<^verbatim>\<open>clearToken()\<close> succeeds
  and leaves the storage as it was, so a second and every further clear is a no-op.
\<close>

theorem clearToken_terminal:
  "fst (clearToken (Available s)) = Inr ()
   \<and> getToken (snd (clearToken (Available s))) = Inr None
   \<and> (getToken ls = Inr None \<longrightarrow> clearToken ls = (Inr (), ls))"
  by (cases ls) (auto simp: fun_upd_idem)

text \<open>
  The absent state reached by clearing a storage that held the token \<open>abc\<close>: a second
  clear returns the same storage.
\<close>

theorem clearToken_terminal_witness:
  "getToken (snd (clearToken (Available (Map.empty(TOKEN_KEY \<mapsto> ''abc''))))) = Inr None
   \<and> clearToken (snd (clearToken (Available (Map.empty(TOKEN_KEY \<mapsto> ''abc'')))))
       = (Inr (), snd (clearToken (Available (Map.empty(TOKEN_KEY \<mapsto> ''abc'')))))"
proof -
  let ?ls = "snd (clearToken (Available (Map.empty(TOKEN_KEY \<mapsto> ''abc''))))"
  have absent: "getToken ?ls = Inr None"
    by simp
  from clearToken_terminal [of "Map.empty" ?ls] absent
  have "clearToken ?ls = (Inr (), ?ls)"
    by blast
  with absent show ?thesis
    by blast
qed

text \<open>
  Claim C9, as amended. On a storage that the platform provides and that accepts the
  write, \<^verbatim>\<open>getToken\<close> returns what is stored under the key or absent,
  \<^verbatim>\<open>clearToken\<close> completes, and \<^verbatim>\<open>setToken\<close> of a string credential completes and
  stores it. The operations do have failure modes: \<^verbatim>\<open>setToken\<close> of a value that has no
  string form (an object with a \<^verbatim>\<open>toString\<close> property of its own, which \<^verbatim>\<open>login\<close> may
  pass on from a payload) throws a \<^verbatim>\<open>TypeError\<close> and writes nothing; and where the
  storage is missing, each of the three raises the platform's error. None of them falls
  back to "no token".
\<close>

theorem TokenStore_failure_modes:
  "getToken (Available s) = Inr (s TOKEN_KEY)
   \<and> setToken (Available s) (JStr c) = (Inr (), Available (s(TOKEN_KEY \<mapsto> c)))
   \<and> clearToken (Available s) = (Inr (), Available (s(TOKEN_KEY := None)))
   \<and> setToken (Available s) (JObj ((''toString'', v) # kvs)) = (Inl TypeError, Available s)
   \<and> getToken Unavailable = Inl StorageUnavailable
   \<and> setToken Unavailable v = (Inl StorageUnavailable, Unavailable)
   \<and> clearToken Unavailable = (Inl StorageUnavailable, Unavailable)"
  by simp

text \<open>
  Claim C9 as stated fails: without a storage, \<^verbatim>\<open>getToken()\<close> does not return absent,
  it raises, and so do \<^verbatim>\<open>setToken('abc')\<close> and \<^verbatim>\<open>clearToken()\<close>.
\<close>

theorem TokenStore_unavailable_counterexample:
  "getToken Unavailable \<noteq> Inr None
   \<and> getToken Unavailable = Inl StorageUnavailable
   \<and> fst (setToken Unavailable (JStr ''abc'')) = Inl StorageUnavailable
   \<and> fst (clearToken Unavailable) = Inl StorageUnavailable"
  by simp

section \<open>API client\<close>

text \<open>
  Claim C10. \<^verbatim>\<open>apiRequest\<close> only reads the token: for every platform, storage, path and
  options, however the call ends (a returned payload, the error of a response that is not
  ok, or any other exception), the storage after the call is the storage before it, and so
  is the token read from it.
\<close>

theorem apiRequest_preserves_storage:
  "(\<exists>r. apiRequest e ls path options = (r, ls))
   \<and> getToken (snd (apiRequest e ls path options)) = getToken ls"
  using apiRequest_store [of e ls path options]
  by (cases "apiRequest e ls path options") simp




text \<open>
  Claim C1, as amended. Let the response \<open>res\<close> to the request that \<^verbatim>\<open>apiRequest\<close>
  sends have a status outside 200..299. Then \<^verbatim>\<open>apiRequest\<close> never returns a payload: it
  throws. The payload \<open>d\<close> is the body parsed as JSON when the content type contains
  \<^verbatim>\<open>application/json\<close>, and the body as text otherwise.

  \<^item> If the content type contains \<^verbatim>\<open>application/json\<close> and the body does not parse, the
    parse error is thrown, with no status and no payload.
  \<^item> Otherwise the message is the string form of \<open>d\<close>'s \<^verbatim>\<open>message\<close> field when that
    field is present and truthy, and \<^verbatim>\<open>Request failed <status>\<close> when it is not. If
    the field has no string form, the \<^verbatim>\<open>TypeError\<close> of the conversion is thrown, with
    no status and no payload; if it has, what is thrown is the failure carrying that
    message, the status and \<open>d\<close>.
  \<^item> In particular, a \<^verbatim>\<open>message\<close> field that is a non-empty string is the message of
    the failure as it is.
\<close>

theorem apiRequest_not_ok:
  assumes "getToken ls = Inr token"
    and "apiRequest_fetch_args e token path options = Inr req"
    and "fetch e req = Some res"
    and "status res < 200 \<or> 299 < status res"
  shows "(\<exists>err. apiRequest e ls path options = (Inl err, ls))
    \<and> (let contentType = (case content_type res of None \<Rightarrow> [] | Some c \<Rightarrow> c);
           is_json = (\<exists>pre post. contentType = pre @ ''application/json'' @ post);
           generic = ''Request failed '' @ show_nat (status res)
       in (is_json \<and> json_parse e (res_body res) = None \<longrightarrow>
             apiRequest e ls path options = (Inl JsonSyntaxError, ls))
        \<and> (\<forall>d. (if is_json then json_parse e (res_body res) = Some d
                 else d = JStr (res_body res)) \<longrightarrow>
               apiRequest e ls path options =
                 (case (case js_get d ''message'' of
                          None \<Rightarrow> Inr generic
                        | Some m \<Rightarrow> if truthy m then js_to_string m else Inr generic) of
                    Inl err \<Rightarrow> (Inl err, ls)
                  | Inr msg \<Rightarrow> (Inl (RequestFailed msg (status res) d), ls))
               \<and> (\<forall>m. js_get d ''message'' = Some (JStr m) \<and> m \<noteq> [] \<longrightarrow>
                     apiRequest e ls path options
                       = (Inl (RequestFailed m (status res) d), ls))))"
proof -
  let ?ct = "case content_type res of None \<Rightarrow> [] | Some c \<Rightarrow> c"
  let ?json = "\<exists>pre post. ?ct = pre @ ''application/json'' @ post"
  have not_ok: "\<not> ok res"
    using assms(4) by (auto simp: ok_def)
  have payload: "apiRequest_data e res =
      (if ?json then (case json_parse e (res_body res) of
                        None \<Rightarrow> Inl JsonSyntaxError
                      | Some d \<Rightarrow> Inr d)
       else Inr (JStr (res_body res)))"
    by (simp add: apiRequest_data_def str_includes_iff)
  have call: "apiRequest e ls path options =
      (case apiRequest_data e res of
         Inl err \<Rightarrow> (Inl err, ls)
       | Inr d \<Rightarrow>
           (case error_message d (status res) of
              Inl err \<Rightarrow> (Inl err, ls)
            | Inr msg \<Rightarrow> (Inl (RequestFailed msg (status res) d), ls)))"
    using assms(1-3) not_ok by (simp add: apiRequest_def split: sum.splits)
  have never: "\<exists>err. apiRequest e ls path options = (Inl err, ls)"
    by (simp add: call split: sum.splits)
  have unparsed: "?json \<and> json_parse e (res_body res) = None \<longrightarrow>
      apiRequest e ls path options = (Inl JsonSyntaxError, ls)"
    by (simp add: call payload)
  have failure: "apiRequest e ls path options =
      (case (case js_get d ''message'' of
               None \<Rightarrow> Inr (''Request failed '' @ show_nat (status res))
             | Some m \<Rightarrow> if truthy m then js_to_string m
                         else Inr (''Request failed '' @ show_nat (status res))) of
         Inl err \<Rightarrow> (Inl err, ls)
       | Inr msg \<Rightarrow> (Inl (RequestFailed msg (status res) d), ls))"
    if "if ?json then json_parse e (res_body res) = Some d else d = JStr (res_body res)" for d
  proof -
    from that have "apiRequest_data e res = Inr d"
      by (simp add: payload split: if_splits)
    then show ?thesis
      by (simp add: call error_message_cases)
  qed
  have string: "apiRequest e ls path options = (Inl (RequestFailed m (status res) d), ls)"
    if "if ?json then json_parse e (res_body res) = Some d else d = JStr (res_body res)"
      and "js_get d ''message'' = Some (JStr m) \<and> m \<noteq> []" for d m
    using failure [OF that(1)] that(2) by simp
  from never unparsed failure string show ?thesis
    unfolding Let_def by blast
qed

text \<open>
  A 401 with the JSON body \<^verbatim>\<open>{"message":"Unauthorized"}\<close> gives the failure with that
  message; a 404 with the text body \<^verbatim>\<open>Not Found\<close> gives the generic message; a 502
  with a JSON content type and an empty body gives the parse error; a 400 with the JSON
  body \<^verbatim>\<open>{"message":{"toString":1}}\<close> gives the \<^verbatim>\<open>TypeError\<close> of the conversion.
\<close>

theorem apiRequest_not_ok_witness:
  "getToken (Available Map.empty) = Inr None
   \<and> (\<exists>req. apiRequest_fetch_args (sample_env (json_response 401 sample_body_message)) None
               ''/contact'' no_options = Inr req
          \<and> fetch (sample_env (json_response 401 sample_body_message)) req
              = Some (json_response 401 sample_body_message))
   \<and> 299 < status (json_response 401 sample_body_message)
   \<and> content_type (json_response 401 sample_body_message) = Some ([] @ ''application/json'' @ [])
   \<and> json_parse (sample_env (json_response 401 sample_body_message)) sample_body_message
       = Some (JObj [(''message'', JStr ''Unauthorized'')])
   \<and> js_get (JObj [(''message'', JStr ''Unauthorized'')]) ''message'' = Some (JStr ''Unauthorized'')
   \<and> apiRequest (sample_env (json_response 401 sample_body_message)) (Available Map.empty)
        ''/contact'' no_options
       = (Inl (RequestFailed ''Unauthorized'' 401 (JObj [(''message'', JStr ''Unauthorized'')])),
          Available Map.empty)
   \<and> 299 < status \<lparr> status = 404, content_type = Some ''text/plain'', res_body = ''Not Found'' \<rparr>
   \<and> \<not> (\<exists>pre post. ''text/plain'' = pre @ ''application/json'' @ post)
   \<and> apiRequest
        (sample_env \<lparr> status = 404, content_type = Some ''text/plain'', res_body = ''Not Found'' \<rparr>)
        (Available Map.empty) ''/contact'' no_options
       = (Inl (RequestFailed ''Request failed 404'' 404 (JStr ''Not Found'')), Available Map.empty)
   \<and> 299 < status (json_response 502 [])
   \<and> json_parse (sample_env (json_response 502 [])) [] = None
   \<and> apiRequest (sample_env (json_response 502 [])) (Available Map.empty) ''/contact'' no_options
       = (Inl JsonSyntaxError, Available Map.empty)
   \<and> 299 < status (json_response 400 sample_body_object_message)
   \<and> json_parse (sample_env (json_response 400 sample_body_object_message))
        sample_body_object_message
       = Some (JObj [(''message'', JObj [(''toString'', JNum ''1'')])])
   \<and> apiRequest (sample_env (json_response 400 sample_body_object_message)) (Available Map.empty)
        ''/contact'' no_options
       = (Inl TypeError, Available Map.empty)"
proof -
  let ?r4 = "json_response 400 sample_body_object_message"
  let ?d4 = "JObj [(''message'', JObj [(''toString'', JNum ''1'')])]"
  let ?r1 = "json_response 401 sample_body_message"
  let ?r2 = "\<lparr> status = 404, content_type = Some ''text/plain'', res_body = ''Not Found'' \<rparr>"
  let ?r3 = "json_response 502 []"
  let ?d1 = "JObj [(''message'', JStr ''Unauthorized'')]"
  have tok: "getToken (Available Map.empty) = Inr None"
    by simp
  have args: "apiRequest_fetch_args (sample_env r) None ''/contact'' no_options =
      Inr \<lparr> req_url = ''/contact'', req_method = None, req_body = None,
            req_headers = [(''content-type'', ''application/json'')] \<rparr>" for r
    by (rule sample_fetch_args)
  have sent: "fetch (sample_env r) req = Some r" for r req
    by (simp add: sample_env_def)
  have s1: "299 < status ?r1" and s2: "299 < status ?r2" and s3: "299 < status ?r3"
    by (simp_all add: json_response_def)
  have c1: "content_type ?r1 = Some ([] @ ''application/json'' @ [])"
    and c3: "content_type ?r3 = Some ([] @ ''application/json'' @ [])"
    by (simp_all add: json_response_def)
  have j1: "\<exists>pre post. (case content_type ?r1 of None \<Rightarrow> [] | Some c \<Rightarrow> c)
      = pre @ ''application/json'' @ post"
    unfolding c1 by (simp only: option.case) blast
  have j3: "\<exists>pre post. (case content_type ?r3 of None \<Rightarrow> [] | Some c \<Rightarrow> c)
      = pre @ ''application/json'' @ post"
    unfolding c3 by (simp only: option.case) blast
  have j2: "\<not> (\<exists>pre post. ''text/plain'' = pre @ ''application/json'' @ post)"
    using str_includes_iff [of "''text/plain''" "''application/json''"] by simp
  have p1: "json_parse (sample_env ?r1) sample_body_message = Some ?d1"
    by (simp add: sample_defs)
  have p3: "json_parse (sample_env ?r3) [] = None"
    by (simp add: sample_defs)
  have g1: "js_get ?d1 ''message'' = Some (JStr ''Unauthorized'')"
    by simp
  have b1: "res_body ?r1 = sample_body_message" and b3: "res_body ?r3 = []"
    and st1: "status ?r1 = 401" and st3: "status ?r3 = 502"
    by (simp_all add: json_response_def)
  have n404: "show_nat 404 = ''404''"
    by (simp add: show_nat.simps)
  note m1 = apiRequest_not_ok [OF tok args sent disjI2 [OF s1],
      THEN conjunct2, unfolded Let_def, THEN conjunct2, rule_format, of ?d1, THEN conjunct2,
      rule_format, of "''Unauthorized''"]
  have a1: "apiRequest (sample_env ?r1) (Available Map.empty) ''/contact'' no_options
      = (Inl (RequestFailed ''Unauthorized'' 401 ?d1), Available Map.empty)"
    using m1 j1 p1 g1 b1 st1 by simp
  note m2 = apiRequest_not_ok [OF tok args sent disjI2 [OF s2],
      THEN conjunct2, unfolded Let_def, THEN conjunct2, rule_format, of "JStr ''Not Found''",
      THEN conjunct1]
  have a2: "apiRequest (sample_env ?r2) (Available Map.empty) ''/contact'' no_options
      = (Inl (RequestFailed ''Request failed 404'' 404 (JStr ''Not Found'')), Available Map.empty)"
    using m2 j2 n404 by simp
  note m3 = apiRequest_not_ok [OF tok args sent disjI2 [OF s3],
      THEN conjunct2, unfolded Let_def, THEN conjunct1, rule_format]
  have a3: "apiRequest (sample_env ?r3) (Available Map.empty) ''/contact'' no_options
      = (Inl JsonSyntaxError, Available Map.empty)"
    using m3 j3 p3 b3 by simp
  have s4: "299 < status ?r4" and c4: "content_type ?r4 = Some ([] @ ''application/json'' @ [])"
    and b4: "res_body ?r4 = sample_body_object_message"
    by (simp_all add: json_response_def)
  have j4: "\<exists>pre post. (case content_type ?r4 of None \<Rightarrow> [] | Some c \<Rightarrow> c)
      = pre @ ''application/json'' @ post"
    unfolding c4 by (simp only: option.case) blast
  have p4: "json_parse (sample_env ?r4) sample_body_object_message = Some ?d4"
    by (simp add: sample_defs)
  note m4 = apiRequest_not_ok [OF tok args sent disjI2 [OF s4],
      THEN conjunct2, unfolded Let_def, THEN conjunct2, rule_format, of ?d4, THEN conjunct1]
  have a4: "apiRequest (sample_env ?r4) (Available Map.empty) ''/contact'' no_options
      = (Inl TypeError, Available Map.empty)"
    using m4 j4 p4 b4 by simp
  have r1: "\<exists>req. apiRequest_fetch_args (sample_env ?r1) None ''/contact'' no_options = Inr req
      \<and> fetch (sample_env ?r1) req = Some ?r1"
    using args sent by blast
  from tok r1 s1 c1 p1 g1 a1 s2 j2 a2 s3 p3 a3 s4 p4 a4 show ?thesis
    by blast
qed

text \<open>
  Claim C1 as stated fails. A 502 whose content type is JSON and whose body is empty
  makes \<^verbatim>\<open>res.json()\<close> throw, and that error, which carries neither status nor payload,
  is what the caller gets. And on a 400 with the body \<^verbatim>\<open>{"message":""}\<close> the field is
  present, but the message is the generic one.
\<close>

theorem apiRequest_not_ok_counterexample:
  "\<not> ok (json_response 502 [])
   \<and> apiRequest (sample_env (json_response 502 [])) (Available Map.empty) ''/contact'' no_options
       = (Inl JsonSyntaxError, Available Map.empty)
   \<and> \<not> ok (json_response 400 sample_body_empty_message)
   \<and> js_get (JObj [(''message'', JStr [])]) ''message'' = Some (JStr [])
   \<and> apiRequest (sample_env (json_response 400 sample_body_empty_message)) (Available Map.empty)
        ''/contact'' no_options
       = (Inl (RequestFailed ''Request failed 400'' 400 (JObj [(''message'', JStr [])])),
          Available Map.empty)"
  apply (simp add: apiRequest_def sample_fetch_args)
  apply (simp add: ok_def apiRequest_data_def error_message_def sample_defs show_nat.simps)
  done

section \<open>Login\<close>

text \<open>
  Claim C4. Let the login request succeed with payload \<open>d\<close>. If \<open>d\<close> has a
  \<^verbatim>\<open>token\<close> field that is a non-empty string \<open>t\<close>, \<^verbatim>\<open>login\<close> returns true, having
  stored \<open>t\<close> with \<^verbatim>\<open>setToken\<close>, and \<^verbatim>\<open>getToken()\<close> afterwards returns \<open>t\<close>. If
  \<open>d\<close> has no \<^verbatim>\<open>token\<close> field, \<^verbatim>\<open>login\<close> returns false and the storage is as it was.
\<close>

theorem login_token:
  assumes "apiRequest e ls ''/auth/login'' (login_options e email password) = (Inr d, ls1)"
  shows "(js_get d ''token'' = Some (JStr t) \<and> t \<noteq> [] \<longrightarrow>
            login e ls email password = (Inr True, snd (setToken ls (JStr t)))
            \<and> getToken (snd (login e ls email password)) = Inr (Some t))
      \<and> (js_get d ''token'' = None \<longrightarrow> login e ls email password = (Inr False, ls))"
proof -
  have same: "ls1 = ls"
    using assms apiRequest_store [of e ls "''/auth/login''" "login_options e email password"]
    by simp
  obtain s where avail: "ls = Available s"
    using assms apiRequest_Inr_available by blast
  show ?thesis
    using assms
    by (auto simp: login_def same avail split: option.splits dest: js_get_Some_truthy)
qed

text \<open>
  A 200 with the body \<^verbatim>\<open>{"token":"abc"}\<close> stores \<open>abc\<close> and returns true; a 200 with
  the body \<^verbatim>\<open>{}\<close> returns false and stores nothing.
\<close>

theorem login_token_witness:
  "apiRequest (sample_env (json_response 200 sample_body_token)) (Available Map.empty)
      ''/auth/login''
      (login_options (sample_env (json_response 200 sample_body_token)) ''a@x.com'' ''pw'')
     = (Inr (JObj [(''token'', JStr ''abc'')]), Available Map.empty)
   \<and> js_get (JObj [(''token'', JStr ''abc'')]) ''token'' = Some (JStr ''abc'')
   \<and> ''abc'' \<noteq> []
   \<and> fst (login (sample_env (json_response 200 sample_body_token)) (Available Map.empty)
            ''a@x.com'' ''pw'') = Inr True
   \<and> getToken (snd (login (sample_env (json_response 200 sample_body_token))
                       (Available Map.empty) ''a@x.com'' ''pw'')) = Inr (Some ''abc'')
   \<and> apiRequest (sample_env (json_response 200 ''{}'')) (Available Map.empty) ''/auth/login''
        (login_options (sample_env (json_response 200 ''{}'')) ''a@x.com'' ''pw'')
       = (Inr (JObj []), Available Map.empty)
   \<and> js_get (JObj []) ''token'' = None
   \<and> login (sample_env (json_response 200 ''{}'')) (Available Map.empty) ''a@x.com'' ''pw''
       = (Inr False, Available Map.empty)"
proof -
  let ?e1 = "sample_env (json_response 200 sample_body_token)"
  let ?e2 = "sample_env (json_response 200 ''{}'')"
  have r1: "apiRequest ?e1 (Available Map.empty) ''/auth/login''
      (login_options ?e1 ''a@x.com'' ''pw'')
      = (Inr (JObj [(''token'', JStr ''abc'')]), Available Map.empty)"
    apply (simp add: sample_apiRequest login_options_def no_options_def)
    apply (simp add: ok_def apiRequest_data_def sample_defs)
    done
  have r2: "apiRequest ?e2 (Available Map.empty) ''/auth/login''
      (login_options ?e2 ''a@x.com'' ''pw'')
      = (Inr (JObj []), Available Map.empty)"
    apply (simp add: sample_apiRequest login_options_def no_options_def)
    apply (simp add: ok_def apiRequest_data_def sample_defs)
    done
  have f1: "js_get (JObj [(''token'', JStr ''abc'')]) ''token'' = Some (JStr ''abc'')"
    and f2: "js_get (JObj []) ''token'' = None" and ne: "''abc'' \<noteq> []"
    by simp_all
  from login_token [OF r1, of "''abc''"] f1 ne
  have l1: "fst (login ?e1 (Available Map.empty) ''a@x.com'' ''pw'') = Inr True
      \<and> getToken (snd (login ?e1 (Available Map.empty) ''a@x.com'' ''pw'')) = Inr (Some ''abc'')"
    by simp
  from login_token [OF r2, of "[]"] f2
  have l2: "login ?e2 (Available Map.empty) ''a@x.com'' ''pw'' = (Inr False, Available Map.empty)"
    by simp
  from r1 f1 ne l1 r2 f2 l2 show ?thesis
    by blast
qed

text \<open>
  Claim C2, as amended. When the login request ends in an error \<open>err\<close>, be it the failure
  of a response that is not ok, a rejected fetch or a parse error, \<^verbatim>\<open>login\<close> does not
  return: \<open>err\<close> propagates to the caller, nothing is stored, and the login page shows
  \<^verbatim>\<open>Login failed\<close>. \<^verbatim>\<open>login\<close> returns false only when the request succeeded and its
  payload has no truthy \<^verbatim>\<open>token\<close>; nothing is stored then either, and the page shows
  \<^verbatim>\<open>Invalid credentials\<close>.
\<close>

theorem login_failure_propagates:
  "(fst (apiRequest e ls ''/auth/login'' (login_options e email password)) = Inl err \<longrightarrow>
      login e ls email password = (Inl err, ls)
      \<and> onSubmit e ls loc email password = (SetError ''Login failed'', ls))
   \<and> (fst (login e ls email password) = Inr False \<longrightarrow>
        (\<exists>d. apiRequest e ls ''/auth/login'' (login_options e email password) = (Inr d, ls)
           \<and> (case js_get d ''token'' of None \<Rightarrow> True | Some t \<Rightarrow> \<not> truthy t))
        \<and> onSubmit e ls loc email password = (SetError ''Invalid credentials'', ls))"
proof -
  obtain r where r: "apiRequest e ls ''/auth/login'' (login_options e email password) = (r, ls)"
    using apiRequest_store [of e ls "''/auth/login''" "login_options e email password"]
    by (cases "apiRequest e ls ''/auth/login'' (login_options e email password)") simp
  show ?thesis
  proof (cases r)
    case (Inl x)
    with r show ?thesis
      by (simp add: login_def onSubmit_def)
  next
    case (Inr d)
    then obtain s where "ls = Available s"
      using r apiRequest_Inr_available by blast
    with r Inr show ?thesis
      by (auto simp: login_def onSubmit_def js_get_falsy split: option.splits sum.splits
          dest: js_get_Some_truthy)
  qed
qed

text \<open>
  A 401 propagates as the failure and the page shows \<^verbatim>\<open>Login failed\<close>; a 200 with the
  body \<^verbatim>\<open>{}\<close> returns false and the page shows \<^verbatim>\<open>Invalid credentials\<close>.
\<close>

theorem login_failure_propagates_witness:
  "fst (apiRequest (sample_env (json_response 401 sample_body_message)) (Available Map.empty)
          ''/auth/login''
          (login_options (sample_env (json_response 401 sample_body_message)) ''a@x.com'' ''pw''))
     = Inl (RequestFailed ''Unauthorized'' 401 (JObj [(''message'', JStr ''Unauthorized'')]))
   \<and> login (sample_env (json_response 401 sample_body_message)) (Available Map.empty)
        ''a@x.com'' ''pw''
       = (Inl (RequestFailed ''Unauthorized'' 401 (JObj [(''message'', JStr ''Unauthorized'')])),
          Available Map.empty)
   \<and> fst (login (sample_env (json_response 200 ''{}'')) (Available Map.empty) ''a@x.com'' ''pw'')
       = Inr False
   \<and> onSubmit (sample_env (json_response 200 ''{}'')) (Available Map.empty)
        (Location ''/login'' [] [] None) ''a@x.com'' ''pw''
       = (SetError ''Invalid credentials'', Available Map.empty)"
proof -
  let ?e1 = "sample_env (json_response 401 sample_body_message)"
  let ?e2 = "sample_env (json_response 200 ''{}'')"
  let ?err = "RequestFailed ''Unauthorized'' 401 (JObj [(''message'', JStr ''Unauthorized'')])"
  have r1: "fst (apiRequest ?e1 (Available Map.empty) ''/auth/login''
      (login_options ?e1 ''a@x.com'' ''pw'')) = Inl ?err"
    apply (simp add: sample_apiRequest login_options_def no_options_def)
    apply (simp add: ok_def apiRequest_data_def error_message_def sample_defs)
    done
  have r2: "fst (login ?e2 (Available Map.empty) ''a@x.com'' ''pw'') = Inr False"
    apply (simp add: login_def sample_apiRequest login_options_def no_options_def)
    apply (simp add: ok_def apiRequest_data_def sample_defs)
    done
  from login_failure_propagates [of ?e1 "Available Map.empty" "''a@x.com''" "''pw''" ?err] r1
  have l1: "login ?e1 (Available Map.empty) ''a@x.com'' ''pw'' = (Inl ?err, Available Map.empty)"
    by blast
  from login_failure_propagates [of ?e2 "Available Map.empty" "''a@x.com''" "''pw''" ?err
      "Location ''/login'' [] [] None"] r2
  have l2: "onSubmit ?e2 (Available Map.empty) (Location ''/login'' [] [] None) ''a@x.com'' ''pw''
      = (SetError ''Invalid credentials'', Available Map.empty)"
    by blast
  from r1 l1 r2 l2 show ?thesis
    by blast
qed

text \<open>
  Claim C2 as stated fails. On a 401 with the body \<^verbatim>\<open>{"message":"Unauthorized"}\<close> the
  request outcome is a failure, and \<^verbatim>\<open>login\<close> does not return false: the failure is
  thrown to the caller, and the login page shows \<^verbatim>\<open>Login failed\<close>, not
  \<^verbatim>\<open>Invalid credentials\<close>.
\<close>

theorem login_declined_counterexample:
  "\<not> ok (json_response 401 sample_body_message)
   \<and> login (sample_env (json_response 401 sample_body_message)) (Available Map.empty)
        ''a@x.com'' ''pw''
       = (Inl (RequestFailed ''Unauthorized'' 401 (JObj [(''message'', JStr ''Unauthorized'')])),
          Available Map.empty)
   \<and> fst (login (sample_env (json_response 401 sample_body_message)) (Available Map.empty)
            ''a@x.com'' ''pw'') \<noteq> Inr False
   \<and> fst (onSubmit (sample_env (json_response 401 sample_body_message)) (Available Map.empty)
            (Location ''/login'' [] [] None) ''a@x.com'' ''pw'')
       = SetError ''Login failed''"
  apply (simp add: login_def onSubmit_def sample_apiRequest login_options_def no_options_def)
  apply (simp add: ok_def apiRequest_data_def error_message_def sample_defs)
  done

section \<open>Route guard and return to the origin\<close>

text \<open>
  Claim C5, as amended. When the guard of \<^verbatim>\<open>/admin\<close> is evaluated at a location
  \<open>loc\<close>: if a non-empty token is stored it renders its children unchanged; if nothing, or
  the empty string, is stored it does not render them but redirects to \<^verbatim>\<open>/login\<close>,
  replacing the location and recording \<open>loc\<close>, and with it the requested path, as the
  origin.
\<close>

theorem RequireAuth_guard:
  "(s TOKEN_KEY = Some t \<and> t \<noteq> [] \<longrightarrow>
      RequireAuth (Available s) loc children = Inr (Children children))
   \<and> (s TOKEN_KEY = None \<or> s TOKEN_KEY = Some [] \<longrightarrow>
        RequireAuth (Available s) loc children = Inr (Navigate ''/login'' True loc)
        \<and> RequireAuth (Available s) loc children \<noteq> Inr (Children children)
        \<and> pathname (nav_state_from (Navigate ''/login'' True loc)) = pathname loc)"
  by (auto simp: RequireAuth_def)

text \<open>
  At \<^verbatim>\<open>/admin\<close>, with the token \<open>abc\<close> stored the page is rendered, and with nothing
  stored the guard redirects.
\<close>

theorem RequireAuth_guard_witness:
  "(Map.empty(TOKEN_KEY \<mapsto> ''abc'')) TOKEN_KEY = Some ''abc''
   \<and> ''abc'' \<noteq> []
   \<and> RequireAuth (Available (Map.empty(TOKEN_KEY \<mapsto> ''abc''))) (Location ''/admin'' [] [] None)
        ''AdminPage''
       = Inr (Children ''AdminPage'')
   \<and> (Map.empty :: storage) TOKEN_KEY = None
   \<and> RequireAuth (Available Map.empty) (Location ''/admin'' [] [] None) ''AdminPage''
       = Inr (Navigate ''/login'' True (Location ''/admin'' [] [] None))"
proof -
  have stored: "(Map.empty(TOKEN_KEY \<mapsto> ''abc'')) TOKEN_KEY = Some ''abc''"
    and ne: "''abc'' \<noteq> []"
    and absent: "(Map.empty :: storage) TOKEN_KEY = None"
    by simp_all
  from RequireAuth_guard [of "Map.empty(TOKEN_KEY \<mapsto> ''abc'')" "''abc''"
      "Location ''/admin'' [] [] None" "''AdminPage''"] stored ne
  have g1: "RequireAuth (Available (Map.empty(TOKEN_KEY \<mapsto> ''abc'')))
      (Location ''/admin'' [] [] None) ''AdminPage'' = Inr (Children ''AdminPage'')"
    by blast
  from RequireAuth_guard [of Map.empty "[]" "Location ''/admin'' [] [] None" "''AdminPage''"]
    absent
  have g2: "RequireAuth (Available Map.empty) (Location ''/admin'' [] [] None) ''AdminPage''
      = Inr (Navigate ''/login'' True (Location ''/admin'' [] [] None))"
    by blast
  from stored ne g1 absent g2 show ?thesis
    by blast
qed

text \<open>
  Claim C5 as stated fails where the empty string is stored under the key:
  \<^verbatim>\<open>getToken()\<close> returns it, so a value is present, yet the guard redirects to
  \<^verbatim>\<open>/login\<close> and does not render the page.
\<close>

theorem RequireAuth_empty_token_counterexample:
  "getToken (Available (Map.empty(TOKEN_KEY \<mapsto> []))) = Inr (Some [])
   \<and> RequireAuth (Available (Map.empty(TOKEN_KEY \<mapsto> []))) (Location ''/admin'' [] [] None)
        ''AdminPage''
       = Inr (Navigate ''/login'' True (Location ''/admin'' [] [] None))"
  by (simp add: RequireAuth_def)

text \<open>
  Claim C6. After a login that resolves true, the page navigates (replacing the location)
  to the path of the origin recorded in the login location, and to \<^verbatim>\<open>/admin\<close> when no
  origin was recorded. The path of a router location is never empty (it begins with a
  slash), which is what the second part assumes of the recorded one. In particular, when
  the guard, with nothing stored, has redirected a request for \<^verbatim>\<open>/admin\<close> to the
  location \<open>loc\<close>, that location is \<^verbatim>\<open>/login\<close> and the login navigates back to
  \<^verbatim>\<open>/admin\<close>.
\<close>

theorem login_navigates_to_origin:
  assumes "fst (login e ls email password) = Inr True"
  shows "(nav_from loc = None \<longrightarrow>
            fst (onSubmit e ls loc email password) = LocationReplace ''/admin'')
    \<and> (nav_from loc = Some origin \<and> pathname origin \<noteq> [] \<longrightarrow>
            fst (onSubmit e ls loc email password) = LocationReplace (pathname origin))
    \<and> (s TOKEN_KEY = None
        \<and> RequireAuth (Available s) (Location ''/admin'' q h st) children = Inr guarded
        \<and> navigated guarded = Some loc \<longrightarrow>
            pathname loc = ''/login''
            \<and> fst (onSubmit e ls loc email password) = LocationReplace ''/admin'')"
  using assms
  by (auto simp: onSubmit_def login_from_def RequireAuth_def split: prod.splits sum.splits)

text \<open>
  A login answered with \<^verbatim>\<open>{"token":"abc"}\<close>: from a login location with no origin it
  goes to \<^verbatim>\<open>/admin\<close>, from one whose origin is \<^verbatim>\<open>/admin/\<close> it goes there, and from the
  one the guard redirected to it goes back to \<^verbatim>\<open>/admin\<close>.
\<close>

theorem login_navigates_to_origin_witness:
  "fst (login (sample_env (json_response 200 sample_body_token)) (Available Map.empty)
          ''a@x.com'' ''pw'') = Inr True
   \<and> fst (onSubmit (sample_env (json_response 200 sample_body_token)) (Available Map.empty)
            (Location ''/login'' [] [] None) ''a@x.com'' ''pw'')
       = LocationReplace ''/admin''
   \<and> fst (onSubmit (sample_env (json_response 200 sample_body_token)) (Available Map.empty)
            (Location ''/login'' [] [] (Some (Location ''/admin/'' ''?tab=1'' [] None)))
            ''a@x.com'' ''pw'')
       = LocationReplace ''/admin/''
   \<and> RequireAuth (Available Map.empty) (Location ''/admin'' [] [] None) ''AdminPage''
       = Inr (Navigate ''/login'' True (Location ''/admin'' [] [] None))
   \<and> navigated (Navigate ''/login'' True (Location ''/admin'' [] [] None) :: string element)
       = Some (Location ''/login'' [] [] (Some (Location ''/admin'' [] [] None)))
   \<and> fst (onSubmit (sample_env (json_response 200 sample_body_token)) (Available Map.empty)
            (Location ''/login'' [] [] (Some (Location ''/admin'' [] [] None)))
            ''a@x.com'' ''pw'')
       = LocationReplace ''/admin''"
proof -
  let ?e = "sample_env (json_response 200 sample_body_token)"
  let ?admin = "Location ''/admin'' [] [] None"
  let ?nav = "Navigate ''/login'' True ?admin :: string element"
  have ok: "fst (login ?e (Available Map.empty) ''a@x.com'' ''pw'') = Inr True"
    apply (simp add: login_def sample_apiRequest login_options_def no_options_def)
    apply (simp add: ok_def apiRequest_data_def sample_defs)
    done
  have guard: "RequireAuth (Available Map.empty) ?admin ''AdminPage'' = Inr ?nav"
    by (simp add: RequireAuth_def)
  have nav: "navigated ?nav = Some (Location ''/login'' [] [] (Some ?admin))"
    by simp
  have absent: "(Map.empty :: storage) TOKEN_KEY = None"
    by simp
  from login_navigates_to_origin [OF ok,
      of "Location ''/login'' [] [] None" ?admin Map.empty "[]" "[]" None "''AdminPage''" ?nav]
  have n1: "fst (onSubmit ?e (Available Map.empty) (Location ''/login'' [] [] None)
      ''a@x.com'' ''pw'') = LocationReplace ''/admin''"
    by simp
  from login_navigates_to_origin [OF ok,
      of "Location ''/login'' [] [] (Some (Location ''/admin/'' ''?tab=1'' [] None))"
         "Location ''/admin/'' ''?tab=1'' [] None" Map.empty "[]" "[]" None "''AdminPage''" ?nav]
  have n2: "fst (onSubmit ?e (Available Map.empty)
      (Location ''/login'' [] [] (Some (Location ''/admin/'' ''?tab=1'' [] None)))
      ''a@x.com'' ''pw'') = LocationReplace ''/admin/''"
    by simp
  from login_navigates_to_origin [OF ok,
      of "Location ''/login'' [] [] (Some ?admin)" ?admin Map.empty "[]" "[]" None
         "''AdminPage''" ?nav] absent guard nav
  have n3: "fst (onSubmit ?e (Available Map.empty) (Location ''/login'' [] [] (Some ?admin))
      ''a@x.com'' ''pw'') = LocationReplace ''/admin''"
    by blast
  from ok n1 n2 guard nav n3 show ?thesis
    by blast
qed

end
